theory Spec2Isabelle
  imports Complex_Main
begin

section \<open>Python numerics used by the models\<close>

text \<open>
  The three solver files compute utilities with Python floats. The embedding reads a float
  as a real number: addition, multiplication, division and comparison are the exact
  operations (rounding error, and sums and products too large for a float, are not part of
  the model). Periods, health and cash are Python ints (unbounded), modelled as \<open>int\<close>.
\<close>

datatype error = ZeroDivisionError | TypeError | AttributeError | IndexError | OverflowError

text \<open>\<open>int(x)\<close> on a float truncates towards zero.\<close>

definition py_int :: "real \<Rightarrow> int" where
  "py_int x = (if 0 \<le> x then \<lfloor>x\<rfloor> else \<lceil>x\<rceil>)"

text \<open>
  \<open>math.exp(x)\<close> raises \<open>OverflowError\<close> when \<open>exp x\<close> is too large for a float, and
  returns otherwise (a result too small for a float is returned as \<open>0.0\<close>). The largest
  float at which it returns is \<open>709.782712893384\<close>, whose exact value is
  \<open>6243314768165359 / 2 ^ 43\<close>. \<open>float_max\<close> is \<open>sys.float_info.max\<close>, the largest
  float.
\<close>

definition exp_max :: real where
  "exp_max = 6243314768165359 / 2 ^ 43"


definition math_exp :: "real \<Rightarrow> error + real" where
  "math_exp x = (if exp_max < x then Inl OverflowError else Inr (exp x))"

text \<open>\<open>round(x)\<close> rounds to the nearest integer, an exact half to the even neighbour.\<close>

definition py_round :: "real \<Rightarrow> int" where
  "py_round x =
     (let f = \<lfloor>x\<rfloor>; d = x - of_int f
      in if d < 1 / 2 then f
         else if 1 / 2 < d then f + 1
         else if even f then f else f + 1)"

text \<open>\<open>round(x, 1)\<close>: one decimal place.\<close>

definition py_round1 :: "real \<Rightarrow> real" where
  "py_round1 x = of_int (py_round (x * 10)) / 10"

text \<open>\<open>range(a, b)\<close> over ints.\<close>

definition py_range :: "int \<Rightarrow> int \<Rightarrow> int list" where
  "py_range a b = [a..b - 1]"

text \<open>\<open>range(0, b, 10)\<close>: 0, 10, 20, ... below \<open>b\<close>.\<close>

definition py_range10 :: "int \<Rightarrow> int list" where
  "py_range10 b = map (\<lambda>k. 10 * k) [0..(b - 1) div 10]"

section \<open>State and investment tuples\<close>

text \<open>
  \<open>DPState = namedtuple('DPState', 'period, health, cash')\<close> and
  \<open>Investment = namedtuple('Investment', 'healthExpenditure, lifeExpenditure, cashRemaining')\<close>.
\<close>

datatype DPState = DPState (period: int) (health: int) (cash: int)

datatype Investment =
  Investment (healthExpenditure: int) (lifeExpenditure: int) (cashRemaining: int)

section \<open>Strategy classes\<close>

subsection \<open>Healthcare\_DP.py: sigmoid regeneration, exponential enjoyment\<close>

text \<open>
  \<open>RegenerationStrategy.HealthRegained\<close> and \<open>LifeEnjoymentStrategy.LifeEnjoyment\<close> call
  \<open>math.exp\<close> and have no other way to fail. Each is given twice. The first definition
  (\<open>HealthRegained_sigmoid_py\<close>, \<open>LifeEnjoyment_exp_py\<close>) is the method with its
  exceptions, the operands evaluated from left to right. The second
  (\<open>HealthRegained_sigmoid\<close>, \<open>LifeEnjoyment_exp\<close>) is the value the method returns when it
  returns; the solver is stated over it.
\<close>

definition HealthRegained_sigmoid_py :: "real \<Rightarrow> real \<Rightarrow> real \<Rightarrow> int \<Rightarrow> error + int" where
  "HealthRegained_sigmoid_py gamma sigma r investment =
     (case math_exp ((- 1) * sigma * of_int investment) of
        Inl e \<Rightarrow> Inl e
      | Inr a \<Rightarrow>
          (case math_exp ((- 1) * sigma * (of_int investment - r)) of
             Inl e \<Rightarrow> Inl e
           | Inr b \<Rightarrow>
               if 1 + b = 0 then Inl ZeroDivisionError
               else Inr (py_int (gamma * ((1 - a) / (1 + b))))))"

definition LifeEnjoyment_exp_py ::
  "real \<Rightarrow> real \<Rightarrow> real \<Rightarrow> real \<Rightarrow> int \<Rightarrow> int \<Rightarrow> error + real" where
  "LifeEnjoyment_exp_py alpha beta mu c investment currentHealth =
     (case math_exp ((- 1) * alpha * of_int investment) of
        Inl e \<Rightarrow> Inl e
      | Inr a \<Rightarrow> Inr (c * (beta * (of_int currentHealth / 100) + mu) * (1 - a)))"

definition HealthRegained_sigmoid :: "real \<Rightarrow> real \<Rightarrow> real \<Rightarrow> int \<Rightarrow> int" where
  "HealthRegained_sigmoid gamma sigma r investment =
     py_int (gamma * ((1 - exp ((- 1) * sigma * of_int investment)) /
                      (1 + exp ((- 1) * sigma * (of_int investment - r)))))"

definition LifeEnjoyment_exp :: "real \<Rightarrow> real \<Rightarrow> real \<Rightarrow> real \<Rightarrow> int \<Rightarrow> int \<Rightarrow> real" where
  "LifeEnjoyment_exp alpha beta mu c investment currentHealth =
     c * (beta * (of_int currentHealth / 100) + mu) * (1 - exp ((- 1) * alpha * of_int investment))"

definition HealthDegeneration_linear :: "real \<Rightarrow> real \<Rightarrow> int \<Rightarrow> int \<Rightarrow> int \<Rightarrow> int" where
  "HealthDegeneration_linear intercept slope horizon currentHealth currentRound =
     (if currentRound \<le> horizon
      then max (currentHealth - py_round (intercept + slope * of_int currentRound)) 0
      else max (currentHealth - py_round (intercept + 2 * slope * of_int currentRound)) 0)"

definition HarvestAmount :: "real \<Rightarrow> int \<Rightarrow> int" where
  "HarvestAmount maxHarvest currentHealth = py_round (maxHarvest * of_int currentHealth / 100)"

subsection \<open>HealthcareDP\_NewDegen.py: deficit-scaled regeneration, hyperbolic enjoyment\<close>

text \<open>
  Both functions return before the formula when the investment is not positive. For a
  positive investment the quotient raises \<open>ZeroDivisionError\<close> when its denominator is 0.
\<close>

definition HealthRegained_deficit :: "real \<Rightarrow> real \<Rightarrow> int \<Rightarrow> int \<Rightarrow> error + int" where
  "HealthRegained_deficit d k investment health' =
     (if investment \<le> 0 then Inr 0
      else if of_int investment + k = 0 then Inl ZeroDivisionError
      else Inr (max (py_int ((100 - of_int health') *
                  ((of_int investment - d * (1 - of_int health' / 100)) / (of_int investment + k)))) 0))"

definition LifeEnjoyment_hyper :: "real \<Rightarrow> int \<Rightarrow> int \<Rightarrow> error + real" where
  "LifeEnjoyment_hyper j investment currentHealth =
     (if investment \<le> 0 then Inr 0
      else if of_int investment + j = 0 then Inl ZeroDivisionError
      else Inr (of_int currentHealth * (of_int investment / (of_int investment + j))))"

definition HealthDegeneration_special :: "int \<Rightarrow> int \<Rightarrow> int \<Rightarrow> int" where
  "HealthDegeneration_special degen currentHealth currentRound =
     (if currentRound = 3 \<or> currentRound = 9
      then max (currentHealth - (degen + 50)) 0
      else max (currentHealth - degen) 0)"

section \<open>The solver instance\<close>

text \<open>
  \<open>HealthCareDP.__init__\<close> stores four strategy objects and the number of rounds. The
  solver calls one method of each. The regeneration method takes the investment alone in
  Healthcare\_DP.py and HealthcareDP\_Stoch.py (\<open>Regen1\<close>) and the investment and the current
  health in HealthcareDP\_NewDegen.py (\<open>Regen2\<close>); the constructor of the regeneration
  strategy therefore also tells which file's \<open>Invest\<close>, \<open>InvestmentEnum\<close> and initial
  \<open>highestReturn\<close> apply. A strategy call is a total function here: the model covers the
  runs in which the strategy methods return.
\<close>

datatype RegenerationStrategy = Regen1 "int \<Rightarrow> int" | Regen2 "int \<Rightarrow> int \<Rightarrow> int"

record HealthCareDP =
  numRounds :: int
  regenStrat :: RegenerationStrategy
  enjoymentStrat :: "int \<Rightarrow> int \<Rightarrow> real"
  degenStrat :: "int \<Rightarrow> int \<Rightarrow> int"
  harvestStrat :: "int \<Rightarrow> int"

section \<open>Investment enumeration\<close>

text \<open>
  Healthcare\_DP.py and HealthcareDP\_Stoch.py (plateau-pruned): the inner loop of
  \<open>InvestmentEnum\<close> for one retained health expenditure.
\<close>

definition window :: "int \<Rightarrow> int \<Rightarrow> Investment list" where
  "window cash' healthExpenditure' =
     map (\<lambda>lifeExpenditure'.
            Investment healthExpenditure' lifeExpenditure' (cash' - healthExpenditure' - lifeExpenditure'))
         (py_range (max (cash' - healthExpenditure' - 20) 0) (cash' + 1 - healthExpenditure'))"

text \<open>The outer loop, with the variable \<open>prev\<close> carried along.\<close>

fun plateau_loop :: "(int \<Rightarrow> int) \<Rightarrow> int \<Rightarrow> int \<Rightarrow> int list \<Rightarrow> Investment list" where
  "plateau_loop hrf cash' prev [] = []"
| "plateau_loop hrf cash' prev (healthExpenditure' # rest) =
     (let hr = hrf healthExpenditure'
      in if \<not> hr = prev
         then window cash' healthExpenditure' @ plateau_loop hrf cash' hr rest
         else plateau_loop hrf cash' prev rest)"

definition InvestmentEnum_plateau :: "(int \<Rightarrow> int) \<Rightarrow> int \<Rightarrow> Investment list" where
  "InvestmentEnum_plateau hrf cash' = plateau_loop hrf cash' (- 1) (py_range 0 (cash' + 1))"

text \<open>HealthcareDP\_NewDegen.py (exhaustive-banked).\<close>

definition InvestmentEnum_banked :: "int \<Rightarrow> Investment list" where
  "InvestmentEnum_banked cash' =
     concat (map (\<lambda>healthExpenditure'.
                    map (\<lambda>bankedCash.
                           Investment healthExpenditure' (cash' - healthExpenditure' - bankedCash) bankedCash)
                        (py_range10 (min 111 (cash' - healthExpenditure' + 1))))
                 (py_range 0 (cash' + 1)))"

definition InvestmentEnum :: "HealthCareDP \<Rightarrow> int \<Rightarrow> Investment list" where
  "InvestmentEnum P cash' =
     (case regenStrat P of
        Regen1 hrf \<Rightarrow> InvestmentEnum_plateau hrf cash'
      | Regen2 _ \<Rightarrow> InvestmentEnum_banked cash')"

text \<open>
  The method keeps its results in \<open>self.EnumCache\<close> under the key \<open>str(cash)\<close> (one key
  per int). \<open>InvestmentEnum_cached\<close> is the method with the dictionary passed along.
\<close>

definition InvestmentEnum_cached ::
  "HealthCareDP \<Rightarrow> (int \<rightharpoonup> Investment list) \<Rightarrow> int \<Rightarrow> Investment list \<times> (int \<rightharpoonup> Investment list)" where
  "InvestmentEnum_cached P EnumCache cash' =
     (case EnumCache cash' of
        Some potentialStates \<Rightarrow> (potentialStates, EnumCache)
      | None \<Rightarrow> (let potentialStates = InvestmentEnum P cash'
                 in (potentialStates, EnumCache(cash' \<mapsto> potentialStates))))"

definition EnumCache_ok :: "HealthCareDP \<Rightarrow> (int \<rightharpoonup> Investment list) \<Rightarrow> bool" where
  "EnumCache_ok P EnumCache = (\<forall>c l. EnumCache c = Some l \<longrightarrow> l = InvestmentEnum P c)"

section \<open>Enumeration: conservation\<close>

lemma py_range_set: "set (py_range a b) = {a..<b}"
  by (auto simp: py_range_def)

lemma py_range10_set: "set (py_range10 b) = {m. 0 \<le> m \<and> m < b \<and> m mod 10 = 0}"
proof -
  have "\<And>m. 0 \<le> m \<Longrightarrow> m < b \<Longrightarrow> m mod 10 = 0 \<Longrightarrow> m \<in> (\<lambda>k. 10 * k) ` {0..(b - 1) div 10}"
  proof -
    fix m :: int
    assume m: "0 \<le> m" "m < b" "m mod 10 = 0"
    have "m = 10 * (m div 10)" using m(3) by presburger
    moreover have "0 \<le> m div 10" using m(1) by presburger
    moreover have "m div 10 \<le> (b - 1) div 10" using m(2) by (simp add: zdiv_mono1)
    ultimately show "m \<in> (\<lambda>k. 10 * k) ` {0..(b - 1) div 10}" by (metis atLeastAtMost_iff imageI)
  qed
  moreover have "\<And>k. 0 \<le> k \<Longrightarrow> k \<le> (b - 1) div 10 \<Longrightarrow> 10 * k < b"
    by presburger
  ultimately show ?thesis
    by (auto simp: py_range10_def)
qed

lemma EnumCache_ok_empty: "EnumCache_ok P Map.empty"
  by (simp add: EnumCache_ok_def)

lemma InvestmentEnum_cached_correct:
  assumes "EnumCache_ok P EnumCache"
  shows "fst (InvestmentEnum_cached P EnumCache c) = InvestmentEnum P c"
    and "EnumCache_ok P (snd (InvestmentEnum_cached P EnumCache c))"
  using assms
  by (auto simp: InvestmentEnum_cached_def EnumCache_ok_def Let_def split: option.splits)

lemma window_set:
  "set (window c he) =
     {Investment he le (c - he - le) | le. max (c - he - 20) 0 \<le> le \<and> le \<le> c - he}"
  by (auto simp: window_def py_range_set)

lemma plateau_loop_subset:
  "set (plateau_loop hrf c prev hes) \<subseteq> (\<Union>he \<in> set hes. set (window c he))"
  by (induction hes arbitrary: prev) (auto simp: Let_def)

lemma plateau_conserves:
  assumes "i \<in> set (InvestmentEnum_plateau hrf c)"
  shows "0 \<le> healthExpenditure i \<and> 0 \<le> lifeExpenditure i \<and> 0 \<le> cashRemaining i \<and>
         healthExpenditure i + lifeExpenditure i + cashRemaining i = c"
proof -
  from assms obtain he where he: "he \<in> set (py_range 0 (c + 1))" and i: "i \<in> set (window c he)"
    using plateau_loop_subset [of hrf c "- 1" "py_range 0 (c + 1)"]
    by (auto simp: InvestmentEnum_plateau_def)
  from i obtain le where "i = Investment he le (c - he - le)"
    "max (c - he - 20) 0 \<le> le" "le \<le> c - he"
    by (auto simp: window_set)
  with he show ?thesis by (auto simp: py_range_set)
qed

lemma banked_conserves:
  assumes "i \<in> set (InvestmentEnum_banked c)"
  shows "0 \<le> healthExpenditure i \<and> 0 \<le> lifeExpenditure i \<and> 0 \<le> cashRemaining i \<and>
         healthExpenditure i + lifeExpenditure i + cashRemaining i = c"
proof -
  from assms obtain he b where he: "0 \<le> he" "he < c + 1"
    and b: "0 \<le> b" "b < min 111 (c - he + 1)" and i: "i = Investment he (c - he - b) b"
    by (auto simp: InvestmentEnum_banked_def py_range_set py_range10_set)
  then show ?thesis by auto
qed

text \<open>
  C4 (conservation). Every Investment that \<open>InvestmentEnum\<close> produces, under the
  plateau-pruned policy (for any regeneration function) and under the exhaustive-banked
  policy, has three non-negative components whose sum is the currency amount given to the
  enumerator. (For a negative amount both enumerations are empty.)
\<close>

theorem InvestmentEnum_conservation:
  assumes "i \<in> set (InvestmentEnum_plateau hrf c) \<union> set (InvestmentEnum_banked c)"
  shows "0 \<le> healthExpenditure i \<and> 0 \<le> lifeExpenditure i \<and> 0 \<le> cashRemaining i \<and>
         healthExpenditure i + lifeExpenditure i + cashRemaining i = c"
  using assms plateau_conserves banked_conserves by blast


theorem InvestmentEnum_conservation_witness:
  "Investment 0 3 0 \<in> set (InvestmentEnum_plateau (\<lambda>i. i div 2) 3) \<union> set (InvestmentEnum_banked 3) \<and>
   healthExpenditure (Investment 0 3 0) + lifeExpenditure (Investment 0 3 0)
     + cashRemaining (Investment 0 3 0) = 3"
proof -
  have m: "Investment 0 3 0 \<in> set (InvestmentEnum_plateau (\<lambda>i. i div 2) 3) \<union> set (InvestmentEnum_banked 3)"
    by (simp add: InvestmentEnum_plateau_def py_range_def window_def upto.simps)
  show ?thesis
    using m InvestmentEnum_conservation [OF m] by simp
qed

section \<open>The deterministic solver (Healthcare\_DP.py, HealthcareDP\_NewDegen.py)\<close>

text \<open>
  The tuples that \<open>Solve\<close> builds and subscripts. \<open>Triple s v u\<close> is
  \<open>(s, v, u)\<close>: a state, a total value and a rounded immediate enjoyment. The search
  for the best candidate starts from a placeholder: the tuple \<open>(0, 0)\<close> in
  Healthcare\_DP.py (\<open>Pair0\<close>), \<open>(DPState(0, 0, 0), 0, 0)\<close> in HealthcareDP\_NewDegen.py
  (a \<open>Triple\<close>) and \<open>DPState(0, 0, -1)\<close> in HealthcareDP\_Stoch.py (\<open>Sentinel\<close>).
  \<open>item1\<close> is the subscript \<open>[1]\<close>, defined on all three shapes.
\<close>

datatype result = Pair0 | Sentinel | Triple DPState real real

fun item1 :: "result \<Rightarrow> real" where
  "item1 Pair0 = 0"
| "item1 Sentinel = 0"
| "item1 (Triple s v u) = v"

definition Transition :: "HealthCareDP \<Rightarrow> DPState \<Rightarrow> DPState" where
  "Transition P state =
     (let nextPeriod = period state + 1
      in DPState nextPeriod
           (degenStrat P (health state) nextPeriod)
           (cash state + harvestStrat P (health state)))"

definition Invest :: "HealthCareDP \<Rightarrow> DPState \<Rightarrow> Investment \<Rightarrow> DPState \<times> real" where
  "Invest P state investment =
     (let endHealth = min 100 (health state +
            (case regenStrat P of
               Regen1 hrf \<Rightarrow> hrf (healthExpenditure investment)
             | Regen2 hrf \<Rightarrow> hrf (healthExpenditure investment) (health state)))
      in (DPState (period state) endHealth (cashRemaining investment),
          enjoymentStrat P (lifeExpenditure investment) endHealth))"

text \<open>\<open>StateEnum\<close>: the pairs in enumeration order, a pair seen before left out.\<close>

fun StateEnum_loop ::
  "HealthCareDP \<Rightarrow> DPState \<Rightarrow> (DPState \<times> real) list \<Rightarrow> Investment list \<Rightarrow> (DPState \<times> real) list" where
  "StateEnum_loop P state allStateEnjoyments [] = allStateEnjoyments"
| "StateEnum_loop P state allStateEnjoyments (investment # rest) =
     (let newStateEnjoyment = Invest P state investment
      in StateEnum_loop P state
           (if newStateEnjoyment \<notin> set allStateEnjoyments
            then allStateEnjoyments @ [newStateEnjoyment] else allStateEnjoyments) rest)"

definition StateEnum :: "HealthCareDP \<Rightarrow> DPState \<Rightarrow> (DPState \<times> real) list" where
  "StateEnum P state = StateEnum_loop P state [] (InvestmentEnum P (cash state))"

text \<open>
  The value \<open>highestReturn\<close> starts with: \<open>(0, 0)\<close> in Healthcare\_DP.py,
  \<open>(DPState(0, 0, 0), 0, 0)\<close> in HealthcareDP\_NewDegen.py.
\<close>

definition highestReturn0 :: "HealthCareDP \<Rightarrow> result" where
  "highestReturn0 P =
     (case regenStrat P of Regen1 _ \<Rightarrow> Pair0 | Regen2 _ \<Rightarrow> Triple (DPState 0 0 0) 0 0)"

lemma StateEnum_loop_set: "set (StateEnum_loop P s acc invs) = set acc \<union> Invest P s ` set invs"
  by (induction invs arbitrary: acc) (auto simp: Let_def)

lemma StateEnum_set: "set (StateEnum P s) = Invest P s ` set (InvestmentEnum P (cash s))"
  by (simp add: StateEnum_def StateEnum_loop_set)

lemma StateEnum_period: "(st, e) \<in> set (StateEnum P s) \<Longrightarrow> period st = period s"
  by (auto simp: StateEnum_set Invest_def Let_def)

text \<open>
  \<open>Solve\<close>, with \<open>self.cache\<close> passed in and returned. The recursion goes to states of
  the period after the argument's, and stops above \<open>numRounds\<close>.
\<close>

function Solve ::
  "HealthCareDP \<Rightarrow> (DPState \<rightharpoonup> result) \<Rightarrow> DPState \<Rightarrow> result \<times> (DPState \<rightharpoonup> result)" where
  "Solve P cache currentState =
     (let newState = Transition P currentState
      in if period newState > numRounds P \<or> health newState \<le> 0 then (Triple newState 0 0, cache)
         else (case cache newState of
                 Some r \<Rightarrow> (r, cache)
               | None \<Rightarrow>
                   (let (highestReturn, cache') =
                          fold (\<lambda>(state, enjoyment) (highestReturn, cache).
                                  let (r, cache') = Solve P cache state;
                                      future = item1 r;
                                      totalValue = enjoyment + future
                                  in if totalValue > item1 highestReturn
                                     then (Triple state totalValue (py_round1 enjoyment), cache')
                                     else (highestReturn, cache'))
                               (StateEnum P newState) (highestReturn0 P, cache)
                    in (highestReturn, cache'(newState \<mapsto> highestReturn)))))"
  by pat_completeness auto
termination
proof (relation "measure (\<lambda>(P, cache, s). nat (numRounds P - period s))")
  show "wf (measure (\<lambda>(P, cache, s). nat (numRounds P - period s)))"
    by simp
next
  fix P :: HealthCareDP and cache :: "DPState \<rightharpoonup> result" and currentState newState x state enjoyment
    and cache' :: "DPState \<rightharpoonup> result"
  assume n: "newState = Transition P currentState"
    and live: "\<not> (numRounds P < period newState \<or> health newState \<le> 0)"
    and x: "x \<in> set (StateEnum P newState)" "(state, enjoyment) = x"
  have "period state = period currentState + 1"
    using StateEnum_period [of state enjoyment P newState] x n by (simp add: Transition_def Let_def)
  moreover have "period currentState + 1 \<le> numRounds P"
    using live n by (simp add: Transition_def Let_def)
  ultimately show "((P, cache', state), (P, cache, currentState))
      \<in> measure (\<lambda>(P, cache, s). nat (numRounds P - period s))"
    by simp
qed

subsection \<open>The candidate loop\<close>

text \<open>The test that ends the recursion, on the state after the transition.\<close>

definition terminal :: "HealthCareDP \<Rightarrow> DPState \<Rightarrow> bool" where
  "terminal P newState = (period newState > numRounds P \<or> health newState \<le> 0)"

text \<open>The body of the candidate loop: one candidate against the best so far.\<close>

definition keep_best :: "result \<Rightarrow> DPState \<Rightarrow> real \<Rightarrow> real \<Rightarrow> result" where
  "keep_best highestReturn state enjoyment future =
     (let totalValue = enjoyment + future
      in if totalValue > item1 highestReturn
         then Triple state totalValue (py_round1 enjoyment) else highestReturn)"

text \<open>
  The loop over the candidates in enumeration order, for a given future value of each
  resulting state (\<open>scan\<close>), and the same loop when the future value comes from a
  solver that threads a cache (\<open>memo_scan\<close>; \<open>pick\<close> is the subscript the solver's
  result is read with).
\<close>

definition scan :: "(DPState \<Rightarrow> real) \<Rightarrow> (DPState \<times> real) list \<Rightarrow> result \<Rightarrow> result" where
  "scan fut cands hr0 =
     fold (\<lambda>(state, enjoyment) highestReturn. keep_best highestReturn state enjoyment (fut state))
          cands hr0"

definition memo_scan ::
  "('c \<Rightarrow> DPState \<Rightarrow> 'r \<times> 'c) \<Rightarrow> ('r \<Rightarrow> real) \<Rightarrow> (DPState \<times> real) list \<Rightarrow> result \<times> 'c \<Rightarrow> result \<times> 'c" where
  "memo_scan solve pick cands start =
     fold (\<lambda>(state, enjoyment) (highestReturn, cache).
             let (r, cache') = solve cache state
             in (keep_best highestReturn state enjoyment (pick r), cache'))
          cands start"

text \<open>The total value of a candidate: its immediate enjoyment plus the future value.\<close>

definition tv :: "(DPState \<Rightarrow> real) \<Rightarrow> DPState \<times> real \<Rightarrow> real" where
  "tv fut x = snd x + fut (fst x)"

text \<open>
  Candidate \<open>i\<close> is the first one of greatest total value, and beats the value \<open>v0\<close>
  the search started from.
\<close>

definition first_max :: "(DPState \<Rightarrow> real) \<Rightarrow> (DPState \<times> real) list \<Rightarrow> real \<Rightarrow> nat \<Rightarrow> bool" where
  "first_max fut cands v0 i =
     (i < length cands \<and> v0 < tv fut (cands ! i) \<and>
      (\<forall>j < length cands. tv fut (cands ! j) \<le> tv fut (cands ! i)) \<and>
      (\<forall>j < i. tv fut (cands ! j) < tv fut (cands ! i)))"

subsection \<open>The value function that the cache memoises\<close>

text \<open>
  \<open>value_spec\<close> is \<open>Solve\<close> without the dictionary: the same recursion, every
  future value computed afresh. Section 4.3 of the specification describes this function.
\<close>

function value_spec :: "HealthCareDP \<Rightarrow> DPState \<Rightarrow> result" where
  "value_spec P currentState =
     (let newState = Transition P currentState
      in if terminal P newState then Triple newState 0 0
         else fold (\<lambda>(state, enjoyment) highestReturn.
                      keep_best highestReturn state enjoyment (item1 (value_spec P state)))
                   (StateEnum P newState) (highestReturn0 P))"
  by pat_completeness auto
termination
proof (relation "measure (\<lambda>(P, s). nat (numRounds P - period s))")
  show "wf (measure (\<lambda>(P, s). nat (numRounds P - period s)))"
    by simp
next
  fix P :: HealthCareDP and currentState newState x state enjoyment
  assume n: "newState = Transition P currentState"
    and live: "\<not> terminal P newState"
    and x: "x \<in> set (StateEnum P newState)" "(state, enjoyment) = x"
  have "period state = period currentState + 1"
    using StateEnum_period [of state enjoyment P newState] x n by (simp add: Transition_def Let_def)
  moreover have "period currentState + 1 \<le> numRounds P"
    using live n by (simp add: Transition_def Let_def terminal_def)
  ultimately show "((P, state), (P, currentState)) \<in> measure (\<lambda>(P, s). nat (numRounds P - period s))"
    by simp
qed

text \<open>The future value of a state, and the best outcome at a state after the transition.\<close>

definition future :: "HealthCareDP \<Rightarrow> DPState \<Rightarrow> real" where
  "future P state = item1 (value_spec P state)"

definition best :: "HealthCareDP \<Rightarrow> DPState \<Rightarrow> result" where
  "best P newState = scan (future P) (StateEnum P newState) (highestReturn0 P)"

text \<open>
  A cache is consistent when every entry is the value for its key. The cache of a new
  solver is empty, and \<open>Solve\<close> keeps it consistent (\<open>Solve_memo\<close>).
\<close>

definition cache_ok :: "HealthCareDP \<Rightarrow> (DPState \<rightharpoonup> result) \<Rightarrow> bool" where
  "cache_ok P cache = (\<forall>n r. cache n = Some r \<longrightarrow> r = best P n)"

declare Solve.simps [simp del] value_spec.simps [simp del]

lemma value_spec_unfold:
  "value_spec P s =
     (if terminal P (Transition P s) then Triple (Transition P s) 0 0 else best P (Transition P s))"
  by (subst value_spec.simps) (simp add: Let_def best_def scan_def future_def)

lemma if_pair: "(if b then (x, c) else (y, c)) = (if b then x else y, c)"
  by simp

lemma Solve_unfold:
  "Solve P cache s =
     (if terminal P (Transition P s) then (Triple (Transition P s) 0 0, cache)
      else case cache (Transition P s) of
             Some r \<Rightarrow> (r, cache)
           | None \<Rightarrow>
               (let m = memo_scan (Solve P) item1 (StateEnum P (Transition P s)) (highestReturn0 P, cache)
                in (fst m, (snd m)(Transition P s \<mapsto> fst m))))"
  by (simp add: Solve.simps [of P cache s] Let_def terminal_def memo_scan_def keep_best_def
        case_prod_beta if_pair split: option.splits)

lemma memo_scan_correct:
  assumes "\<And>st e c. (st, e) \<in> set cands \<Longrightarrow> ok c \<Longrightarrow>
             pick (fst (solve c st)) = fut st \<and> ok (snd (solve c st))"
    and "ok c"
  shows "fst (memo_scan solve pick cands (hr, c)) = scan fut cands hr
         \<and> ok (snd (memo_scan solve pick cands (hr, c)))"
  using assms
proof (induction cands arbitrary: hr c)
  case Nil
  then show ?case by (simp add: memo_scan_def scan_def)
next
  case (Cons x xs)
  obtain st e where x: "x = (st, e)" by (cases x)
  have s: "pick (fst (solve c st)) = fut st" "ok (snd (solve c st))"
    using Cons.prems(1) [of st e c] Cons.prems(2) x by auto
  have step: "memo_scan solve pick (x # xs) (hr, c) =
      memo_scan solve pick xs (keep_best hr st e (fut st), snd (solve c st))"
    using s(1) by (simp add: memo_scan_def x case_prod_beta)
  have rest: "pick (fst (solve c st)) = fut st \<and> ok (snd (solve c st))"
    if "(st, e) \<in> set xs" "ok c" for st e c
  proof -
    have "(st, e) \<in> set (x # xs)" using that(1) by simp
    then show ?thesis using that(2) by (rule Cons.prems(1))
  qed
  show ?case
    unfolding step
    using Cons.IH [of "snd (solve c st)" "keep_best hr st e (fut st)", OF rest s(2)]
    by (simp add: x scan_def)
qed

lemma Solve_memo:
  "cache_ok P cache \<Longrightarrow>
     fst (Solve P cache s) = value_spec P s \<and> cache_ok P (snd (Solve P cache s))"
proof (induction P cache s rule: Solve.induct)
  case (1 P cache s)
  let ?n = "Transition P s"
  show ?case
  proof (cases "terminal P ?n")
    case True
    then show ?thesis using "1.prems" by (simp add: Solve_unfold value_spec_unfold)
  next
    case live: False
    show ?thesis
    proof (cases "cache ?n")
      case (Some r)
      then show ?thesis using "1.prems" live
        by (simp add: Solve_unfold value_spec_unfold cache_ok_def)
    next
      case None
      have ih: "\<And>st e c. (st, e) \<in> set (StateEnum P ?n) \<Longrightarrow> cache_ok P c \<Longrightarrow>
             item1 (fst (Solve P c st)) = future P st \<and> cache_ok P (snd (Solve P c st))"
        using "1.IH" [OF refl _ None] live by (auto simp: terminal_def future_def)
      note ml = memo_scan_correct [of "StateEnum P ?n" "cache_ok P" item1 "Solve P" "future P" cache
          "highestReturn0 P", OF ih "1.prems"]
      have r: "fst (memo_scan (Solve P) item1 (StateEnum P ?n) (highestReturn0 P, cache)) = best P ?n"
        using ml by (simp add: best_def)
      have c: "cache_ok P (snd (memo_scan (Solve P) item1 (StateEnum P ?n) (highestReturn0 P, cache)))"
        using ml by simp
      show ?thesis
        using live None r c by (simp add: Solve_unfold value_spec_unfold cache_ok_def Let_def)
    qed
  qed
qed

lemma cache_ok_empty: "cache_ok P Map.empty"
  by (simp add: cache_ok_def)


lemma item1_highestReturn0: "item1 (highestReturn0 P) = 0"
  by (simp add: highestReturn0_def split: RegenerationStrategy.splits)

lemma Solve_fresh:
  assumes "cache_ok P cache" "\<not> terminal P (Transition P s)" "cache (Transition P s) = None"
  shows "fst (Solve P cache s) = best P (Transition P s)"
    and "snd (Solve P cache s) (Transition P s) = Some (best P (Transition P s))"
proof -
  show 1: "fst (Solve P cache s) = best P (Transition P s)"
    using Solve_memo [OF assms(1), of s] assms(2) by (simp add: value_spec_unfold)
  show "snd (Solve P cache s) (Transition P s) = Some (best P (Transition P s))"
    using 1 assms(2,3) by (simp add: Solve_unfold Let_def)
qed

subsection \<open>What the candidate loop returns\<close>

lemma scan_snoc: "scan fut (xs @ [x]) hr0 = keep_best (scan fut xs hr0) (fst x) (snd x) (fut (fst x))"
  by (simp add: scan_def case_prod_beta)

lemma scan_char:
  "(scan fut cands hr0 = hr0 \<and> (\<forall>j < length cands. tv fut (cands ! j) \<le> item1 hr0)) \<or>
   (\<exists>i. first_max fut cands (item1 hr0) i \<and>
        scan fut cands hr0 = Triple (fst (cands ! i)) (tv fut (cands ! i)) (py_round1 (snd (cands ! i))))"
proof (induction cands rule: rev_induct)
  case Nil
  then show ?case by (simp add: scan_def)
next
  case (snoc x xs)
  let ?t = "tv fut x"
  from snoc.IH show ?case
  proof
    assume a: "scan fut xs hr0 = hr0 \<and> (\<forall>j < length xs. tv fut (xs ! j) \<le> item1 hr0)"
    show ?thesis
    proof (cases "item1 hr0 < ?t")
      case True
      have "first_max fut (xs @ [x]) (item1 hr0) (length xs)"
        using a True by (auto simp: first_max_def nth_append less_Suc_eq intro: order_less_imp_le le_less_trans)
      moreover have "scan fut (xs @ [x]) hr0 = Triple (fst x) ?t (py_round1 (snd x))"
        using a True by (simp add: scan_snoc keep_best_def tv_def)
      ultimately show ?thesis by (metis nth_append_length)
    next
      case False
      then have "scan fut (xs @ [x]) hr0 = hr0"
        using a by (simp add: scan_snoc keep_best_def tv_def)
      moreover have "\<forall>j < length (xs @ [x]). tv fut ((xs @ [x]) ! j) \<le> item1 hr0"
        using a False by (auto simp: nth_append less_Suc_eq)
      ultimately show ?thesis by blast
    qed
  next
    assume "\<exists>i. first_max fut xs (item1 hr0) i \<and>
        scan fut xs hr0 = Triple (fst (xs ! i)) (tv fut (xs ! i)) (py_round1 (snd (xs ! i)))"
    then obtain i where i: "first_max fut xs (item1 hr0) i"
      and s: "scan fut xs hr0 = Triple (fst (xs ! i)) (tv fut (xs ! i)) (py_round1 (snd (xs ! i)))"
      by blast
    have il: "i < length xs" using i by (simp add: first_max_def)
    show ?thesis
    proof (cases "tv fut (xs ! i) < ?t")
      case True
      have "first_max fut (xs @ [x]) (item1 hr0) (length xs)"
        using i True by (auto simp: first_max_def nth_append less_Suc_eq intro: order_less_imp_le le_less_trans less_trans)
      moreover have "scan fut (xs @ [x]) hr0 = Triple (fst x) ?t (py_round1 (snd x))"
        using s True by (simp add: scan_snoc keep_best_def tv_def)
      ultimately show ?thesis by (metis nth_append_length)
    next
      case False
      have "first_max fut (xs @ [x]) (item1 hr0) i"
        using i False by (auto simp: first_max_def nth_append less_Suc_eq)
      moreover have "scan fut (xs @ [x]) hr0 = Triple (fst ((xs @ [x]) ! i)) (tv fut ((xs @ [x]) ! i)) (py_round1 (snd ((xs @ [x]) ! i)))"
        using s False il by (simp add: scan_snoc keep_best_def tv_def nth_append)
      ultimately show ?thesis by blast
    qed
  qed
qed


section \<open>The stochastic solver (HealthcareDP\_Stoch.py)\<close>

text \<open>
  The stochastic class takes the six constructor arguments of the deterministic one and two
  more. Its \<open>Transition\<close>, \<open>Invest\<close>, \<open>StateEnum\<close> and \<open>InvestmentEnum\<close> are those of
  Healthcare\_DP.py (on a \<open>DPState\<close> the \<open>try\<close> branch of \<open>Transition\<close> raises
  \<open>AttributeError\<close> at \<open>state[0].period\<close> and the handler computes the same state as the
  deterministic method). Its strategy modules are not among the sources: the strategies
  are the parameters of \<open>dp\<close>.
\<close>

record HealthCareDP_Stoch =
  dp :: HealthCareDP
  stochHitChance :: real
  stochHitSize :: int

text \<open>
  What the stochastic \<open>Solve\<close> returns: \<open>(newState, 0, 0)\<close> when the game is over,
  else \<open>(highestReturn, hitStateHighestReturn, expected_value)\<close>. \<open>item2\<close> is the
  subscript \<open>[2]\<close>.
\<close>

datatype sresult = GameOver DPState | Blend result result real

fun item2 :: "sresult \<Rightarrow> real" where
  "item2 (GameOver newState) = 0"
| "item2 (Blend highestReturn hitStateHighestReturn expected_value) = expected_value"

text \<open>The state after a health shock.\<close>

definition hit :: "HealthCareDP_Stoch \<Rightarrow> DPState \<Rightarrow> DPState" where
  "hit S newState = DPState (period newState) (max (health newState - stochHitSize S) 0) (cash newState)"

function Solve_Stoch ::
  "HealthCareDP_Stoch \<Rightarrow> (DPState \<rightharpoonup> sresult) \<Rightarrow> DPState \<Rightarrow> sresult \<times> (DPState \<rightharpoonup> sresult)" where
  "Solve_Stoch S cache currentState =
     (let newState = Transition (dp S) currentState;
          hitState = hit S newState
      in if period newState > numRounds (dp S) \<or> health newState \<le> 0 then (GameOver newState, cache)
         else (case cache newState of
                 Some r \<Rightarrow> (r, cache)
               | None \<Rightarrow>
                   (let stateEnjoyments = StateEnum (dp S) newState;
                        hitStateEnjoyments = StateEnum (dp S) hitState;
                        (highestReturn, cache1) =
                          fold (\<lambda>(state, enjoyment) (highestReturn, cache).
                                  let (r, cache') = Solve_Stoch S cache state;
                                      future = item2 r;
                                      totalValue = enjoyment + future
                                  in if totalValue > item1 highestReturn
                                     then (Triple state totalValue (py_round1 enjoyment), cache')
                                     else (highestReturn, cache'))
                               stateEnjoyments (Sentinel, cache);
                        (hitStateHighestReturn, cache2) =
                          fold (\<lambda>(state, enjoyment) (hitStateHighestReturn, cache).
                                  let (r, cache') = Solve_Stoch S cache state;
                                      future = item2 r;
                                      totalValue = enjoyment + future
                                  in if totalValue > item1 hitStateHighestReturn
                                     then (Triple state totalValue (py_round1 enjoyment), cache')
                                     else (hitStateHighestReturn, cache'))
                               hitStateEnjoyments (Sentinel, cache1);
                        expected_value = (1 - stochHitChance S) * item1 highestReturn
                                         + stochHitChance S * item1 hitStateHighestReturn
                    in (Blend highestReturn hitStateHighestReturn expected_value,
                        cache2(newState \<mapsto> Blend highestReturn hitStateHighestReturn expected_value)))))"
  by pat_completeness auto
termination
proof (relation "measure (\<lambda>(S, cache, s). nat (numRounds (dp S) - period s))")
  show "wf (measure (\<lambda>(S, cache, s). nat (numRounds (dp S) - period s)))"
    by simp
next
  fix S :: HealthCareDP_Stoch and cache :: "DPState \<rightharpoonup> sresult" and currentState newState x state enjoyment
    and cache' :: "DPState \<rightharpoonup> sresult" and stateEnjoyments
  assume n: "newState = Transition (dp S) currentState"
    and live: "\<not> (numRounds (dp S) < period newState \<or> health newState \<le> 0)"
    and x: "stateEnjoyments = StateEnum (dp S) newState" "x \<in> set stateEnjoyments" "(state, enjoyment) = x"
  have "period state = period currentState + 1"
    using StateEnum_period [of state enjoyment "dp S" newState] x n by (simp add: Transition_def Let_def)
  moreover have "period currentState + 1 \<le> numRounds (dp S)"
    using live n by (simp add: Transition_def Let_def)
  ultimately show "((S, cache', state), (S, cache, currentState))
      \<in> measure (\<lambda>(S, cache, s). nat (numRounds (dp S) - period s))"
    by simp
next
  fix S :: HealthCareDP_Stoch and cache :: "DPState \<rightharpoonup> sresult" and currentState newState hitState x state enjoyment
    and cache' :: "DPState \<rightharpoonup> sresult" and hitStateEnjoyments
  assume n: "newState = Transition (dp S) currentState" and h: "hitState = hit S newState"
    and live: "\<not> (numRounds (dp S) < period newState \<or> health newState \<le> 0)"
    and x: "hitStateEnjoyments = StateEnum (dp S) hitState" "x \<in> set hitStateEnjoyments" "(state, enjoyment) = x"
  have "period state = period currentState + 1"
    using StateEnum_period [of state enjoyment "dp S" hitState] x n h
    by (simp add: Transition_def Let_def hit_def)
  moreover have "period currentState + 1 \<le> numRounds (dp S)"
    using live n by (simp add: Transition_def Let_def)
  ultimately show "((S, cache', state), (S, cache, currentState))
      \<in> measure (\<lambda>(S, cache, s). nat (numRounds (dp S) - period s))"
    by simp
qed


text \<open>The stochastic solver without the dictionary (section 4.4 of the specification).\<close>

function value_spec_Stoch :: "HealthCareDP_Stoch \<Rightarrow> DPState \<Rightarrow> sresult" where
  "value_spec_Stoch S currentState =
     (let newState = Transition (dp S) currentState;
          hitState = hit S newState
      in if terminal (dp S) newState then GameOver newState
         else (let highestReturn =
                     fold (\<lambda>(state, enjoyment) highestReturn.
                             keep_best highestReturn state enjoyment (item2 (value_spec_Stoch S state)))
                          (StateEnum (dp S) newState) Sentinel;
                   hitStateHighestReturn =
                     fold (\<lambda>(state, enjoyment) highestReturn.
                             keep_best highestReturn state enjoyment (item2 (value_spec_Stoch S state)))
                          (StateEnum (dp S) hitState) Sentinel
               in Blend highestReturn hitStateHighestReturn
                    ((1 - stochHitChance S) * item1 highestReturn
                     + stochHitChance S * item1 hitStateHighestReturn)))"
  by pat_completeness auto
termination
proof (relation "measure (\<lambda>(S, s). nat (numRounds (dp S) - period s))")
  show "wf (measure (\<lambda>(S, s). nat (numRounds (dp S) - period s)))"
    by simp
next
  fix S :: HealthCareDP_Stoch and currentState newState x state enjoyment
  assume n: "newState = Transition (dp S) currentState"
    and live: "\<not> terminal (dp S) newState"
    and x: "x \<in> set (StateEnum (dp S) newState)" "(state, enjoyment) = x"
  have "period state = period currentState + 1"
    using StateEnum_period [of state enjoyment "dp S" newState] x n by (simp add: Transition_def Let_def)
  moreover have "period currentState + 1 \<le> numRounds (dp S)"
    using live n by (simp add: Transition_def Let_def terminal_def)
  ultimately show "((S, state), (S, currentState)) \<in> measure (\<lambda>(S, s). nat (numRounds (dp S) - period s))"
    by simp
next
  fix S :: HealthCareDP_Stoch and currentState newState hitState x state enjoyment
  assume n: "newState = Transition (dp S) currentState" and h: "hitState = hit S newState"
    and live: "\<not> terminal (dp S) newState"
    and x: "x \<in> set (StateEnum (dp S) hitState)" "(state, enjoyment) = x"
  have "period state = period currentState + 1"
    using StateEnum_period [of state enjoyment "dp S" hitState] x n h
    by (simp add: Transition_def Let_def hit_def)
  moreover have "period currentState + 1 \<le> numRounds (dp S)"
    using live n by (simp add: Transition_def Let_def terminal_def)
  ultimately show "((S, state), (S, currentState)) \<in> measure (\<lambda>(S, s). nat (numRounds (dp S) - period s))"
    by simp
qed

text \<open>
  The expected future value of a state, the winners of the two branches at a state after
  the transition, and the triple that is cached for it.
\<close>

definition expected :: "HealthCareDP_Stoch \<Rightarrow> DPState \<Rightarrow> real" where
  "expected S state = item2 (value_spec_Stoch S state)"

definition bestNormal :: "HealthCareDP_Stoch \<Rightarrow> DPState \<Rightarrow> result" where
  "bestNormal S newState = scan (expected S) (StateEnum (dp S) newState) Sentinel"

definition bestHit :: "HealthCareDP_Stoch \<Rightarrow> DPState \<Rightarrow> result" where
  "bestHit S newState = scan (expected S) (StateEnum (dp S) (hit S newState)) Sentinel"

definition blend :: "HealthCareDP_Stoch \<Rightarrow> DPState \<Rightarrow> sresult" where
  "blend S newState =
     Blend (bestNormal S newState) (bestHit S newState)
       ((1 - stochHitChance S) * item1 (bestNormal S newState)
        + stochHitChance S * item1 (bestHit S newState))"

definition cache_ok_Stoch :: "HealthCareDP_Stoch \<Rightarrow> (DPState \<rightharpoonup> sresult) \<Rightarrow> bool" where
  "cache_ok_Stoch S cache = (\<forall>n r. cache n = Some r \<longrightarrow> r = blend S n)"

declare Solve_Stoch.simps [simp del] value_spec_Stoch.simps [simp del]

lemma value_spec_Stoch_unfold:
  "value_spec_Stoch S s =
     (if terminal (dp S) (Transition (dp S) s) then GameOver (Transition (dp S) s)
      else blend S (Transition (dp S) s))"
  by (subst value_spec_Stoch.simps)
     (simp add: Let_def blend_def bestNormal_def bestHit_def scan_def expected_def)

lemma Solve_Stoch_unfold:
  "Solve_Stoch S cache s =
     (if terminal (dp S) (Transition (dp S) s) then (GameOver (Transition (dp S) s), cache)
      else case cache (Transition (dp S) s) of
             Some r \<Rightarrow> (r, cache)
           | None \<Rightarrow>
               (let m1 = memo_scan (Solve_Stoch S) item2 (StateEnum (dp S) (Transition (dp S) s)) (Sentinel, cache);
                    m2 = memo_scan (Solve_Stoch S) item2 (StateEnum (dp S) (hit S (Transition (dp S) s))) (Sentinel, snd m1);
                    b = Blend (fst m1) (fst m2)
                          ((1 - stochHitChance S) * item1 (fst m1) + stochHitChance S * item1 (fst m2))
                in (b, (snd m2)(Transition (dp S) s \<mapsto> b))))"
  by (simp add: Solve_Stoch.simps [of S cache s] Let_def terminal_def memo_scan_def keep_best_def
        case_prod_beta if_pair split: option.splits)

lemma Solve_Stoch_memo:
  "cache_ok_Stoch S cache \<Longrightarrow>
     fst (Solve_Stoch S cache s) = value_spec_Stoch S s \<and> cache_ok_Stoch S (snd (Solve_Stoch S cache s))"
proof (induction S cache s rule: Solve_Stoch.induct)
  case (1 S cache s)
  let ?n = "Transition (dp S) s"
  show ?case
  proof (cases "terminal (dp S) ?n")
    case True
    then show ?thesis using "1.prems" by (simp add: Solve_Stoch_unfold value_spec_Stoch_unfold)
  next
    case live: False
    show ?thesis
    proof (cases "cache ?n")
      case (Some r)
      then show ?thesis using "1.prems" live
        by (simp add: Solve_Stoch_unfold value_spec_Stoch_unfold cache_ok_Stoch_def)
    next
      case None
      let ?m1 = "memo_scan (Solve_Stoch S) item2 (StateEnum (dp S) ?n) (Sentinel, cache)"
      let ?m2 = "memo_scan (Solve_Stoch S) item2 (StateEnum (dp S) (hit S ?n)) (Sentinel, snd ?m1)"
      have live': "\<not> (numRounds (dp S) < period ?n \<or> health ?n \<le> 0)"
        using live by (simp add: terminal_def)
      have ih1: "\<And>st e c. (st, e) \<in> set (StateEnum (dp S) ?n) \<Longrightarrow> cache_ok_Stoch S c \<Longrightarrow>
             item2 (fst (Solve_Stoch S c st)) = expected S st \<and> cache_ok_Stoch S (snd (Solve_Stoch S c st))"
        using "1.IH"(1) [OF refl refl live' None refl refl] by (auto simp: expected_def)
      note ml1 = memo_scan_correct [of "StateEnum (dp S) ?n" "cache_ok_Stoch S" item2 "Solve_Stoch S"
          "expected S" cache Sentinel, OF ih1 "1.prems"]
      have ih2: "item2 (fst (Solve_Stoch S c st)) = expected S st \<and> cache_ok_Stoch S (snd (Solve_Stoch S c st))"
        if "(st, e) \<in> set (StateEnum (dp S) (hit S ?n))" "cache_ok_Stoch S c" for st e c
        using "1.IH"(2) [OF refl refl live' None refl refl refl prod.collapse that(1) refl that(2)]
        by (simp add: expected_def)
      have ok1: "cache_ok_Stoch S (snd ?m1)" using ml1 by simp
      note ml2 = memo_scan_correct [of "StateEnum (dp S) (hit S ?n)" "cache_ok_Stoch S" item2 "Solve_Stoch S"
          "expected S" "snd ?m1" Sentinel, OF ih2 ok1]
      have r1: "fst ?m1 = bestNormal S ?n" using ml1 by (simp add: bestNormal_def)
      have r2: "fst ?m2 = bestHit S ?n" using ml2 by (simp add: bestHit_def)
      have ok2: "cache_ok_Stoch S (snd ?m2)" using ml2 by simp
      show ?thesis
        using live None r1 r2 ok2
        by (simp add: Solve_Stoch_unfold value_spec_Stoch_unfold cache_ok_Stoch_def Let_def blend_def)
    qed
  qed
qed


section \<open>Solver instances\<close>

text \<open>
  The objects that \<open>main\<close> builds: Healthcare\_DP.py from the coefficients of its three
  strategy classes, HealthcareDP\_NewDegen.py from those of its own. In the second file the
  regeneration and enjoyment methods can raise; \<open>projr\<close> reads the value of a call that
  returned, and says nothing about one that raised.
\<close>

definition Healthcare_DP ::
  "int \<Rightarrow> real \<Rightarrow> real \<Rightarrow> real \<Rightarrow> real \<Rightarrow> real \<Rightarrow> real \<Rightarrow> real \<Rightarrow> real \<Rightarrow> real \<Rightarrow> int \<Rightarrow> real \<Rightarrow> HealthCareDP" where
  "Healthcare_DP n gamma sigma r alpha beta mu c intercept slope horizon maxHarvest =
     \<lparr>numRounds = n,
      regenStrat = Regen1 (HealthRegained_sigmoid gamma sigma r),
      enjoymentStrat = LifeEnjoyment_exp alpha beta mu c,
      degenStrat = HealthDegeneration_linear intercept slope horizon,
      harvestStrat = HarvestAmount maxHarvest\<rparr>"

definition NewDegen :: "int \<Rightarrow> real \<Rightarrow> real \<Rightarrow> real \<Rightarrow> int \<Rightarrow> real \<Rightarrow> HealthCareDP" where
  "NewDegen n d k j degen maxHarvest =
     \<lparr>numRounds = n,
      regenStrat = Regen2 (\<lambda>investment h. projr (HealthRegained_deficit d k investment h)),
      enjoymentStrat = (\<lambda>investment h. projr (LifeEnjoyment_hyper j investment h)),
      degenStrat = HealthDegeneration_special degen,
      harvestStrat = HarvestAmount maxHarvest\<rparr>"

section \<open>The end of the game\<close>

text \<open>
  From period \<open>p\<close> on, degeneration leaves a health of 0 or less at 0 or less. The
  degeneration methods of the sources are \<open>max(health - loss, 0)\<close>: this says that the
  loss is not negative in the rounds after \<open>p\<close>.
\<close>

definition stays_dead :: "HealthCareDP \<Rightarrow> int \<Rightarrow> bool" where
  "stays_dead P p = (\<forall>h r. h \<le> 0 \<and> p < r \<longrightarrow> degenStrat P h r \<le> 0)"



lemma Solve_game_over:
  "terminal P (Transition P s) \<Longrightarrow> Solve P cache s = (Triple (Transition P s) 0 0, cache)"
  by (simp add: Solve_unfold)

lemma Solve_Stoch_game_over:
  "terminal (dp S) (Transition (dp S) s) \<Longrightarrow> Solve_Stoch S cache s = (GameOver (Transition (dp S) s), cache)"
  by (simp add: Solve_Stoch_unfold)

lemma terminal_after:
  assumes "numRounds P < period s \<or> (health s \<le> 0 \<and> stays_dead P (period s))"
  shows "numRounds P < period (Transition P s) \<or>
         (health (Transition P s) \<le> 0 \<and> stays_dead P (period (Transition P s)))"
  using assms by (auto simp: Transition_def Let_def stays_dead_def)

text \<open>
  C3, as amended. \<open>Solve\<close> tests the state after the transition, not its argument. For an
  argument whose period exceeds \<open>numRounds\<close>, and for an argument whose health is 0 (or
  less) when degeneration does not raise such a health above 0 in the later rounds, the
  deterministic and the stochastic \<open>Solve\<close> return \<open>(newState, 0, 0)\<close>, total value 0 and
  immediate enjoyment 0, and leave the cache as it is. The state returned is again of this
  kind, so the value stays 0 from there on.
\<close>

theorem Solve_terminal:
  assumes "numRounds P < period s \<or> (health s \<le> 0 \<and> stays_dead P (period s))"
  shows "Solve P cache s = (Triple (Transition P s) 0 0, cache) \<and>
         Solve_Stoch \<lparr>dp = P, stochHitChance = p, stochHitSize = z\<rparr> scache s
           = (GameOver (Transition P s), scache) \<and>
         (numRounds P < period (Transition P s) \<or>
          (health (Transition P s) \<le> 0 \<and> stays_dead P (period (Transition P s))))"
proof -
  have a: "numRounds P < period (Transition P s) \<or>
         (health (Transition P s) \<le> 0 \<and> stays_dead P (period (Transition P s)))"
    by (rule terminal_after [OF assms])
  then have t: "terminal P (Transition P s)"
    by (auto simp: terminal_def)
  show ?thesis
    using a Solve_game_over [OF t] Solve_Stoch_game_over [of "\<lparr>dp = P, stochHitChance = p, stochHitSize = z\<rparr>" s] t
    by simp
qed

text \<open>
  Without the side condition the claim fails: a degeneration strategy with a negative
  intercept gives health back. \<open>revival_game\<close> is
  \<open>DegenerationStrategy(-5, 0, 18)\<close>, \<open>HarvestStrategy(46.811)\<close>,
  \<open>RegenerationStrategy(0, 1, 0)\<close> and \<open>LifeEnjoymentStrategy(1, 0, 1, 1)\<close> with one
  round.
\<close>

lemma HealthRegained_sigmoid_0 [simp]: "HealthRegained_sigmoid gamma sigma r 0 = 0"
  by (simp add: HealthRegained_sigmoid_def py_int_def)

lemma HealthRegained_sigmoid_gamma0 [simp]: "HealthRegained_sigmoid 0 sigma r i = 0"
  by (simp add: HealthRegained_sigmoid_def py_int_def)

lemma LifeEnjoyment_exp_0 [simp]: "LifeEnjoyment_exp alpha beta mu c 0 h = 0"
  by (simp add: LifeEnjoyment_exp_def)

definition revival_game :: HealthCareDP where
  "revival_game = Healthcare_DP 1 0 1 0 1 0 1 1 (- 5) 0 18 46.811"

lemma revival_Transition: "Transition revival_game (DPState 0 0 1) = DPState 1 5 1"
  by (simp add: revival_game_def Healthcare_DP_def Transition_def Let_def HealthDegeneration_linear_def
      HarvestAmount_def py_round_def)

lemma revival_StateEnum:
  "StateEnum revival_game (DPState 1 5 1) = [(DPState 1 5 1, 0), (DPState 1 5 0, 1 - exp (- 1))]"
  by (simp add: revival_game_def Healthcare_DP_def StateEnum_def InvestmentEnum_def InvestmentEnum_plateau_def
      py_range_def window_def upto.simps Invest_def Let_def LifeEnjoyment_exp_def)

lemma revival_future: "future revival_game (DPState 1 5 b) = 0"
  by (simp add: future_def value_spec_unfold terminal_def revival_game_def Healthcare_DP_def Transition_def Let_def)

lemma revival_init: "highestReturn0 revival_game = Pair0"
  by (simp add: highestReturn0_def revival_game_def Healthcare_DP_def)

text \<open>
  C3, as stated, at the state \<open>DPState(0, 0, 1)\<close> of health 0: \<open>Solve\<close> returns a winner
  of total value \<open>1 - exp(-1)\<close>, not 0.
\<close>

theorem Solve_terminal_counterexample:
  "health (DPState 0 0 1) = 0 \<and>
   fst (Solve revival_game Map.empty (DPState 0 0 1))
     = Triple (DPState 1 5 0) (1 - exp (- 1)) (py_round1 (1 - exp (- 1))) \<and>
   item1 (fst (Solve revival_game Map.empty (DPState 0 0 1))) \<noteq> 0"
proof -
  have live: "\<not> terminal revival_game (Transition revival_game (DPState 0 0 1))"
    by (simp add: revival_Transition terminal_def) (simp add: revival_game_def Healthcare_DP_def)
  have "fst (Solve revival_game Map.empty (DPState 0 0 1)) = best revival_game (DPState 1 5 1)"
    using Solve_fresh(1) [OF cache_ok_empty live] by (simp add: revival_Transition)
  also have "\<dots> = Triple (DPState 1 5 0) (1 - exp (- 1)) (py_round1 (1 - exp (- 1)))"
    by (simp add: best_def scan_def revival_StateEnum keep_best_def revival_future revival_init)
  finally show ?thesis by simp
qed


text \<open>
  \<open>game18\<close>: the 18-round strategies of \<open>main\<close> in Healthcare\_DP.py
  (\<open>DegenerationStrategy(7.625, 0.25, 18)\<close>, \<open>HarvestStrategy(46.811)\<close>); the
  regeneration and enjoyment coefficients come from a parameter file that is not among the
  sources, and are chosen here.
\<close>

lemma py_round_nonneg: "0 \<le> x \<Longrightarrow> 0 \<le> py_round x"
proof -
  assume "0 \<le> x"
  then have "0 \<le> \<lfloor>x\<rfloor>" by simp
  then show ?thesis by (simp add: py_round_def Let_def)
qed

definition game18 :: HealthCareDP where
  "game18 = Healthcare_DP 18 100 (1 / 10) 50 (1 / 100) 1 1 100 7.625 0.25 18 46.811"

lemma game18_stays_dead: "0 \<le> p \<Longrightarrow> stays_dead game18 p"
proof -
  assume p: "0 \<le> p"
  have "degenStrat game18 h r \<le> 0" if "h \<le> 0" "p < r" for h r
  proof -
    have r: "0 \<le> (r::int)" using p that(2) by simp
    have "0 \<le> py_round (7.625 + 0.25 * of_int r)" "0 \<le> py_round (7.625 + 2 * 0.25 * of_int r)"
      using r by (auto intro!: py_round_nonneg add_nonneg_nonneg mult_nonneg_nonneg)
    then show ?thesis
      using that(1) by (simp add: game18_def Healthcare_DP_def HealthDegeneration_linear_def)
  qed
  then show ?thesis by (simp add: stays_dead_def)
qed

theorem Solve_terminal_witness:
  "health (DPState 5 0 30) \<le> 0 \<and> stays_dead game18 (period (DPState 5 0 30)) \<and>
   Solve game18 Map.empty (DPState 5 0 30) = (Triple (DPState 6 0 30) 0 0, Map.empty)"
proof -
  have sd: "stays_dead game18 5"
    by (rule game18_stays_dead) simp
  have h: "numRounds game18 < period (DPState 5 0 30) \<or>
           (health (DPState 5 0 30) \<le> 0 \<and> stays_dead game18 (period (DPState 5 0 30)))"
    using sd by simp
  have t: "Transition game18 (DPState 5 0 30) = DPState 6 0 30"
    by (simp add: game18_def Healthcare_DP_def Transition_def Let_def HealthDegeneration_linear_def
        HarvestAmount_def py_round_def)
  show ?thesis
    using sd Solve_terminal [OF h, of Map.empty] by (simp add: t)
qed

section \<open>The winner of the candidate loop\<close>



lemma game18_numRounds: "numRounds game18 = 18"
  by (simp add: game18_def Healthcare_DP_def)







text \<open>
  C10. In Healthcare\_DP.py (\<open>Regen1\<close>), when the state after the transition is neither
  terminal nor cached and no candidate has a total value above 0, \<open>Solve\<close> returns and
  caches the tuple \<open>(0, 0)\<close>, which has no next state and no immediate enjoyment.
\<close>

theorem Solve_initial_pair:
  assumes "regenStrat P = Regen1 hrf" "cache_ok P cache"
    and "\<not> terminal P (Transition P s)" "cache (Transition P s) = None"
    and "\<forall>x \<in> set (StateEnum P (Transition P s)). tv (future P) x \<le> 0"
  shows "fst (Solve P cache s) = Pair0 \<and> snd (Solve P cache s) (Transition P s) = Some Pair0"
proof -
  let ?n = "Transition P s"
  have le: "\<forall>j < length (StateEnum P ?n). tv (future P) (StateEnum P ?n ! j) \<le> 0"
    using assms(5) by simp
  have "\<not> first_max (future P) (StateEnum P ?n) 0 i" for i
    using le by (auto simp: first_max_def)
  then have "best P ?n = highestReturn0 P"
    using scan_char [of "future P" "StateEnum P ?n" "highestReturn0 P"]
    by (auto simp: best_def item1_highestReturn0)
  then have "best P ?n = Pair0"
    using assms(1) by (simp add: highestReturn0_def)
  then show ?thesis
    using Solve_fresh [OF assms(2,3,4)] by simp
qed

text \<open>
  The example of the claim: one round, health 1, no cash, no loss of health
  (\<open>DegenerationStrategy(0, 0, 18)\<close>). The harvest of health 1 rounds to 0, so the only
  candidate spends nothing, earns enjoyment 0 and leads to the end of the game.
\<close>

definition zero_cash_game :: HealthCareDP where
  "zero_cash_game = Healthcare_DP 1 100 (1 / 10) 50 (1 / 100) 1 1 100 0 0 18 46.811"

lemma zero_cash_Transition: "Transition zero_cash_game (DPState 0 1 0) = DPState 1 1 0"
  by (simp add: zero_cash_game_def Healthcare_DP_def Transition_def Let_def HealthDegeneration_linear_def
      HarvestAmount_def py_round_def)

lemma zero_cash_StateEnum: "StateEnum zero_cash_game (DPState 1 1 0) = [(DPState 1 1 0, 0)]"
  by (simp add: zero_cash_game_def Healthcare_DP_def StateEnum_def InvestmentEnum_def InvestmentEnum_plateau_def
      py_range_def window_def upto.simps Invest_def Let_def)

lemma zero_cash_future: "future zero_cash_game (DPState 1 1 0) = 0"
  by (simp add: future_def value_spec_unfold terminal_def zero_cash_game_def Healthcare_DP_def
      Transition_def Let_def)

theorem Solve_initial_pair_witness:
  "\<not> terminal zero_cash_game (Transition zero_cash_game (DPState 0 1 0)) \<and>
   StateEnum zero_cash_game (Transition zero_cash_game (DPState 0 1 0)) = [(DPState 1 1 0, 0)] \<and>
   fst (Solve zero_cash_game Map.empty (DPState 0 1 0)) = Pair0 \<and>
   snd (Solve zero_cash_game Map.empty (DPState 0 1 0)) (DPState 1 1 0) = Some Pair0"
proof -
  have r: "regenStrat zero_cash_game = Regen1 (HealthRegained_sigmoid 100 (1 / 10) 50)"
    by (simp add: zero_cash_game_def Healthcare_DP_def)
  have live: "\<not> terminal zero_cash_game (Transition zero_cash_game (DPState 0 1 0))"
    by (simp add: zero_cash_Transition terminal_def) (simp add: zero_cash_game_def Healthcare_DP_def)
  have fresh: "Map.empty (Transition zero_cash_game (DPState 0 1 0)) = (None :: result option)"
    by simp
  have none: "\<forall>x \<in> set (StateEnum zero_cash_game (Transition zero_cash_game (DPState 0 1 0))).
                tv (future zero_cash_game) x \<le> 0"
    by (simp add: zero_cash_Transition zero_cash_StateEnum tv_def zero_cash_future)
  show ?thesis
    using live Solve_initial_pair [OF r cache_ok_empty live fresh none]
    by (simp add: zero_cash_Transition zero_cash_StateEnum)
qed

section \<open>The blended expectation\<close>

lemma cache_ok_Stoch_empty: "cache_ok_Stoch S Map.empty"
  by (simp add: cache_ok_Stoch_def)

lemma expected_unfold:
  "expected S st =
     (if terminal (dp S) (Transition (dp S) st) then 0
      else (1 - stochHitChance S) * item1 (bestNormal S (Transition (dp S) st))
           + stochHitChance S * item1 (bestHit S (Transition (dp S) st)))"
  by (simp add: expected_def value_spec_Stoch_unfold blend_def)

text \<open>
  C1. For a consistent cache and a state after the transition that is not terminal, the
  stochastic \<open>Solve\<close> returns, and holds in its cache afterwards, the triple
  \<open>(bestN, bestH, (1 - p) * bestN[1] + p * bestH[1])\<close> with \<open>p = stochHitChance\<close>;
  \<open>bestN\<close> and \<open>bestH\<close> are the winners of the candidate loops of the normal and the hit
  state, and the future value added to a candidate's enjoyment in both loops is
  \<open>expected\<close>: the third component of what \<open>Solve\<close> returns for the candidate's state
  (0 at the end of the game), which is itself the blend of the two branches one round
  later, never one branch's own total value.
\<close>

theorem Solve_Stoch_blended_expectation:
  assumes "cache_ok_Stoch S cache" "\<not> terminal (dp S) (Transition (dp S) s)"
  shows "\<exists>bestN bestH.
           fst (Solve_Stoch S cache s)
             = Blend bestN bestH
                 ((1 - stochHitChance S) * item1 bestN + stochHitChance S * item1 bestH) \<and>
           snd (Solve_Stoch S cache s) (Transition (dp S) s) = Some (fst (Solve_Stoch S cache s)) \<and>
           bestN = scan (expected S) (StateEnum (dp S) (Transition (dp S) s)) Sentinel \<and>
           bestH = scan (expected S) (StateEnum (dp S) (hit S (Transition (dp S) s))) Sentinel \<and>
           (\<forall>c st. cache_ok_Stoch S c \<longrightarrow> item2 (fst (Solve_Stoch S c st)) = expected S st) \<and>
           (\<forall>st. expected S st =
              (if terminal (dp S) (Transition (dp S) st) then 0
               else (1 - stochHitChance S) * item1 (bestNormal S (Transition (dp S) st))
                    + stochHitChance S * item1 (bestHit S (Transition (dp S) st))))"
proof -
  let ?n = "Transition (dp S) s"
  have v: "fst (Solve_Stoch S cache s) = blend S ?n"
    using Solve_Stoch_memo [OF assms(1), of s] assms(2) by (simp add: value_spec_Stoch_unfold)
  have c: "snd (Solve_Stoch S cache s) ?n = Some (blend S ?n)"
  proof (cases "cache ?n")
    case None
    then show ?thesis
      using v assms(2) by (simp add: Solve_Stoch_unfold Let_def)
  next
    case (Some r)
    then show ?thesis
      using assms by (simp add: Solve_Stoch_unfold cache_ok_Stoch_def)
  qed
  have m: "\<forall>c st. cache_ok_Stoch S c \<longrightarrow> item2 (fst (Solve_Stoch S c st)) = expected S st"
    by (simp add: Solve_Stoch_memo expected_def)
  show ?thesis
    using v c m expected_unfold [of S]
    by (simp add: blend_def bestNormal_def bestHit_def)
qed

definition stoch_game :: HealthCareDP_Stoch where
  "stoch_game = \<lparr>dp = game18, stochHitChance = 1 / 5, stochHitSize = 50\<rparr>"

text \<open>
  A two-round game: enjoyment \<open>currentHealth / 100\<close> for any positive investment, no
  regeneration, degeneration or harvest, a shock of 50 with probability 1/5. From
  \<open>DPState(0, 100, 1)\<close> the candidate that banks its one unit of cash has future value
  \<open>0.8 * 1 + 0.2 * 0.5 = 0.9\<close>, the blend of the two branches of the second round (the
  normal branch alone is worth 1), and loses against spending now (total value 1).
\<close>

definition tiny :: HealthCareDP where
  "tiny = \<lparr>numRounds = 2,
            regenStrat = Regen1 (\<lambda>investment. 0),
            enjoymentStrat = (\<lambda>investment currentHealth.
                                if 0 < investment then of_int currentHealth / 100 else 0),
            degenStrat = (\<lambda>currentHealth currentRound. currentHealth),
            harvestStrat = (\<lambda>currentHealth. 0)\<rparr>"

definition stoch_tiny :: HealthCareDP_Stoch where
  "stoch_tiny = \<lparr>dp = tiny, stochHitChance = 1 / 5, stochHitSize = 50\<rparr>"

lemma tiny_Transition: "Transition (dp stoch_tiny) (DPState p h b) = DPState (p + 1) h b"
  by (simp add: stoch_tiny_def tiny_def Transition_def Let_def)

lemma tiny_hit: "hit stoch_tiny (DPState p h b) = DPState p (max (h - 50) 0) b"
  by (simp add: stoch_tiny_def hit_def)

lemma tiny_terminal: "terminal (dp stoch_tiny) (DPState p h b) \<longleftrightarrow> 2 < p \<or> h \<le> 0"
  by (simp add: stoch_tiny_def tiny_def terminal_def)

lemma tiny_StateEnum1:
  "0 \<le> h \<Longrightarrow> h \<le> 100 \<Longrightarrow>
   StateEnum (dp stoch_tiny) (DPState p h 1) = [(DPState p h 1, 0), (DPState p h 0, of_int h / 100)]"
  by (simp add: stoch_tiny_def tiny_def StateEnum_def InvestmentEnum_def InvestmentEnum_plateau_def
      py_range_def window_def upto.simps Invest_def Let_def)

lemma tiny_StateEnum0:
  "h \<le> 100 \<Longrightarrow> StateEnum (dp stoch_tiny) (DPState p h 0) = [(DPState p h 0, 0)]"
  by (simp add: stoch_tiny_def tiny_def StateEnum_def InvestmentEnum_def InvestmentEnum_plateau_def
      py_range_def window_def upto.simps Invest_def Let_def)

lemma tiny_chance: "stochHitChance stoch_tiny = 1 / 5"
  by (simp add: stoch_tiny_def)

lemma round1_values: "py_round1 0 = 0" "py_round1 1 = 1" "py_round1 (1 / 2) = 1 / 2"
  by (simp_all add: py_round1_def py_round_def)

lemma tiny_expected2: "expected stoch_tiny (DPState 2 h b) = 0"
  by (simp add: expected_unfold tiny_Transition tiny_terminal)

lemma tiny_expected_saved: "expected stoch_tiny (DPState 1 100 1) = 9 / 10"
  by (simp add: expected_unfold tiny_Transition tiny_terminal tiny_chance bestNormal_def bestHit_def
      tiny_hit tiny_StateEnum1 scan_def keep_best_def tiny_expected2)

lemma tiny_expected_saved_hit: "expected stoch_tiny (DPState 1 50 1) = 2 / 5"
  by (simp add: expected_unfold tiny_Transition tiny_terminal tiny_chance bestNormal_def bestHit_def
      tiny_hit tiny_StateEnum1 scan_def keep_best_def tiny_expected2)

lemma tiny_expected_spent: "h \<le> 100 \<Longrightarrow> expected stoch_tiny (DPState 1 h 0) = 0"
  by (simp add: expected_unfold tiny_Transition tiny_terminal tiny_chance bestNormal_def bestHit_def
      tiny_hit tiny_StateEnum0 scan_def keep_best_def tiny_expected2)

lemma tiny_later_normal: "item1 (bestNormal stoch_tiny (DPState 2 100 1)) = 1"
  by (simp add: bestNormal_def tiny_StateEnum1 scan_def keep_best_def tiny_expected2)

theorem Solve_Stoch_blended_expectation_witness:
  "\<not> terminal (dp stoch_tiny) (Transition (dp stoch_tiny) (DPState 0 100 1)) \<and>
   fst (Solve_Stoch stoch_tiny Map.empty (DPState 0 100 1))
     = Blend (Triple (DPState 1 100 0) 1 1) (Triple (DPState 1 50 0) (1 / 2) (1 / 2)) (9 / 10) \<and>
   snd (Solve_Stoch stoch_tiny Map.empty (DPState 0 100 1)) (DPState 1 100 1)
     = Some (Blend (Triple (DPState 1 100 0) 1 1) (Triple (DPState 1 50 0) (1 / 2) (1 / 2)) (9 / 10)) \<and>
   expected stoch_tiny (DPState 1 100 1) = 9 / 10 \<and>
   item1 (bestNormal stoch_tiny (DPState 2 100 1)) = 1"
proof -
  have live: "\<not> terminal (dp stoch_tiny) (Transition (dp stoch_tiny) (DPState 0 100 1))"
    by (simp add: tiny_Transition tiny_terminal)
  obtain bestN bestH where b:
    "fst (Solve_Stoch stoch_tiny Map.empty (DPState 0 100 1))
       = Blend bestN bestH ((1 - stochHitChance stoch_tiny) * item1 bestN
                            + stochHitChance stoch_tiny * item1 bestH)"
    "snd (Solve_Stoch stoch_tiny Map.empty (DPState 0 100 1))
       (Transition (dp stoch_tiny) (DPState 0 100 1))
       = Some (fst (Solve_Stoch stoch_tiny Map.empty (DPState 0 100 1)))"
    "bestN = scan (expected stoch_tiny)
               (StateEnum (dp stoch_tiny) (Transition (dp stoch_tiny) (DPState 0 100 1))) Sentinel"
    "bestH = scan (expected stoch_tiny)
               (StateEnum (dp stoch_tiny) (hit stoch_tiny (Transition (dp stoch_tiny) (DPState 0 100 1))))
               Sentinel"
    using Solve_Stoch_blended_expectation [OF cache_ok_Stoch_empty live] by blast
  have n: "bestN = Triple (DPState 1 100 0) 1 1"
    unfolding b(3)
    by (simp add: tiny_Transition tiny_StateEnum1 scan_def keep_best_def tiny_expected_saved
        tiny_expected_spent round1_values)
  have h: "bestH = Triple (DPState 1 50 0) (1 / 2) (1 / 2)"
    unfolding b(4)
    by (simp add: tiny_Transition tiny_hit tiny_StateEnum1 scan_def keep_best_def
        tiny_expected_saved_hit tiny_expected_spent round1_values)
  show ?thesis
    using live b(1,2) tiny_expected_saved tiny_later_normal
    by (simp add: n h tiny_chance tiny_Transition)
qed


section \<open>The plateau-pruned policy\<close>

text \<open>
  The health expenditures for which the outer loop of \<open>InvestmentEnum\<close> runs its inner
  loop, with the variable \<open>prev\<close> as in the source.
\<close>

fun retained :: "(int \<Rightarrow> int) \<Rightarrow> int \<Rightarrow> int list \<Rightarrow> int list" where
  "retained hrf prev [] = []"
| "retained hrf prev (he # rest) =
     (if \<not> hrf he = prev then he # retained hrf (hrf he) rest else retained hrf prev rest)"

text \<open>
  The specification's words: an expenditure is skipped when its gain is identical to the
  previous retained value. Before the first retained expenditure there is no such value
  (\<open>None\<close>).
\<close>

fun plateau_spec :: "(int \<Rightarrow> int) \<Rightarrow> int option \<Rightarrow> int list \<Rightarrow> int list" where
  "plateau_spec hrf lastGain [] = []"
| "plateau_spec hrf lastGain (he # rest) =
     (if lastGain = Some (hrf he) then plateau_spec hrf lastGain rest
      else he # plateau_spec hrf (Some (hrf he)) rest)"

text \<open>
  The consumption window as the claim words it, from \<open>currency - resourceExpenditure - 20\<close>
  up to the remainder.
\<close>

definition window_claimed :: "int \<Rightarrow> int \<Rightarrow> Investment list" where
  "window_claimed c he = map (\<lambda>le. Investment he le (c - he - le)) [c - he - 20..c - he]"

lemma plateau_loop_retained:
  "plateau_loop hrf c prev hes = concat (map (window c) (retained hrf prev hes))"
  by (induction hes arbitrary: prev) (simp_all add: Let_def)

lemma plateau_spec_Some: "plateau_spec hrf (Some prev) hes = retained hrf prev hes"
  by (induction hes arbitrary: prev) auto

lemma plateau_spec_None:
  assumes "hes = [] \<or> hrf (hd hes) \<noteq> - 1"
  shows "plateau_spec hrf None hes = retained hrf (- 1) hes"
  using assms by (cases hes) (auto simp: plateau_spec_Some)

lemma upto_hd: "[0..c] = [] \<or> hd [0..c] = (0::int)"
  by (cases "0 \<le> c") (simp_all add: upto_rec1)

text \<open>
  C6, as amended. When the gain of expenditure 0 is not the source's initial \<open>prev = -1\<close>
  (the sigmoid formula gives 0 there, \<open>sigmoid_0\<close>), the enumerator goes through the
  health expenditures 0..currency in order, skips one whose gain is identical to the
  previous retained gain, and for each retained one lists the consumption expenditures from
  \<open>max(currency - healthExpenditure - 20, 0)\<close> up to \<open>currency - healthExpenditure\<close>,
  the banked remainder making up the difference. The lower end of the window is clamped
  at 0.
\<close>

theorem InvestmentEnum_plateau_pruned:
  assumes "hrf 0 \<noteq> - 1"
  shows "InvestmentEnum_plateau hrf c =
           concat (map (\<lambda>he. map (\<lambda>le. Investment he le (c - he - le)) [max (c - he - 20) 0..c - he])
                       (plateau_spec hrf None [0..c]))"
proof -
  have "plateau_spec hrf None [0..c] = retained hrf (- 1) [0..c]"
    using upto_hd [of c] assms by (intro plateau_spec_None) auto
  moreover have "window c = (\<lambda>he. map (\<lambda>le. Investment he le (c - he - le)) [max (c - he - 20) 0..c - he])"
    by (simp add: fun_eq_iff window_def py_range_def)
  ultimately show ?thesis
    by (simp add: InvestmentEnum_plateau_def plateau_loop_retained py_range_def)
qed

theorem InvestmentEnum_plateau_pruned_witness:
  "(0::int) div 2 \<noteq> - 1 \<and>
   InvestmentEnum_plateau (\<lambda>i. i div 2) 3 =
     [Investment 0 0 3, Investment 0 1 2, Investment 0 2 1, Investment 0 3 0,
      Investment 2 0 1, Investment 2 1 0]"
proof -
  have h: "(\<lambda>i::int. i div 2) 0 \<noteq> - 1" by simp
  show ?thesis
    using InvestmentEnum_plateau_pruned [of "\<lambda>i. i div 2" 3, OF h]
    by (simp add: upto.simps)
qed

lemma sigmoid_0: "HealthRegained_sigmoid gamma sigma r 0 \<noteq> - 1"
  by simp

text \<open>
  C6, as stated, at currency 0: the code lists the one investment \<open>(0, 0, 0)\<close>; the
  window from \<open>0 - 0 - 20\<close> up to 0 has 21 entries, negative consumption among them.
\<close>

theorem InvestmentEnum_window_counterexample:
  "InvestmentEnum_plateau (HealthRegained_sigmoid 100 (1 / 10) 50) 0 = [Investment 0 0 0] \<and>
   length (window_claimed 0 0) = 21 \<and> Investment 0 (- 20) 20 \<in> set (window_claimed 0 0)"
  by (simp add: InvestmentEnum_plateau_def py_range_def window_def window_claimed_def upto.simps)


section \<open>Strategy functions at non-positive investments\<close>



text \<open>When the method returns, it returns the value of the second definition.\<close>

lemma HealthRegained_sigmoid_py_returns:
  "HealthRegained_sigmoid_py gamma sigma r investment = Inr v \<Longrightarrow>
   v = HealthRegained_sigmoid gamma sigma r investment"
  by (auto simp: HealthRegained_sigmoid_py_def HealthRegained_sigmoid_def math_exp_def
           split: if_splits sum.splits)

lemma LifeEnjoyment_exp_py_returns:
  "LifeEnjoyment_exp_py alpha beta mu c investment h = Inr v \<Longrightarrow>
   v = LifeEnjoyment_exp alpha beta mu c investment h"
  by (auto simp: LifeEnjoyment_exp_py_def LifeEnjoyment_exp_def math_exp_def
           split: if_splits sum.splits)












section \<open>Trajectory extraction\<close>

text \<open>
  \<open>FindStrat\<close>. The variable \<open>cur\<close> holds what the subscripts of the previous result
  gave: a state, or a number (the \<open>0\<close> of a placeholder, or a period). \<open>item0\<close> is the
  subscript \<open>[0]\<close> of a deterministic result. In the deterministic files \<open>Solve\<close> on a
  number raises \<open>AttributeError\<close> at \<open>state.period\<close>.
\<close>

datatype cur = State DPState | Number int

fun item0 :: "result \<Rightarrow> cur" where
  "item0 Pair0 = Number 0"
| "item0 Sentinel = Number 0"
| "item0 (Triple s v u) = State s"

fun FindStrat_loop ::
  "HealthCareDP \<Rightarrow> nat \<Rightarrow> (DPState \<rightharpoonup> result) \<Rightarrow> cur \<Rightarrow> error + (cur list \<times> (DPState \<rightharpoonup> result))" where
  "FindStrat_loop P 0 cache cur = Inr ([], cache)"
| "FindStrat_loop P (Suc n) cache cur =
     (case cur of
        Number i \<Rightarrow> Inl AttributeError
      | State s \<Rightarrow>
          (let (r, cache') = Solve P cache s;
               cur' = item0 r
           in case FindStrat_loop P n cache' cur' of
                Inl e \<Rightarrow> Inl e
              | Inr (strategy, cache'') \<Rightarrow> Inr (cur' # strategy, cache'')))"

definition FindStrat ::
  "HealthCareDP \<Rightarrow> (DPState \<rightharpoonup> result) \<Rightarrow> DPState \<Rightarrow> error + (cur list \<times> (DPState \<rightharpoonup> result))" where
  "FindStrat P cache state = FindStrat_loop P (nat (numRounds P)) cache (State state)"

text \<open>
  HealthcareDP\_Stoch.py. The loop body is
  \<^verbatim>\<open>try: cur = self.Solve(cur)[0][0]
except: cur = self.Solve(cur)
strategy.append(cur[0][0])\<close>
  \<open>item00\<close> is \<open>[0][0]\<close> on a result of \<open>Solve\<close>: the winning state of the normal
  branch, the \<open>0\<close> of the placeholder, or the period of the final state. On a state the
  \<open>try\<close> branch does not raise, so the handler does not run; on a number \<open>Transition\<close>
  raises \<open>TypeError\<close> at \<open>state[0]\<close>, in the \<open>try\<close> branch and again in the handler.
  \<open>subscript0\<close> is the subscript \<open>[0]\<close> of the \<open>append\<close> line: the period of a state,
  \<open>TypeError\<close> on a number.
\<close>

fun subscript0 :: "cur \<Rightarrow> error + cur" where
  "subscript0 (State s) = Inr (Number (period s))"
| "subscript0 (Number i) = Inl TypeError"

fun item00 :: "sresult \<Rightarrow> cur" where
  "item00 (GameOver newState) = Number (period newState)"
| "item00 (Blend highestReturn hitStateHighestReturn expected_value) = item0 highestReturn"

fun FindStrat_Stoch_loop ::
  "HealthCareDP_Stoch \<Rightarrow> nat \<Rightarrow> (DPState \<rightharpoonup> sresult) \<Rightarrow> cur
     \<Rightarrow> error + (cur list \<times> (DPState \<rightharpoonup> sresult))" where
  "FindStrat_Stoch_loop S 0 cache cur = Inr ([], cache)"
| "FindStrat_Stoch_loop S (Suc n) cache cur =
     (case cur of
        Number i \<Rightarrow> Inl TypeError
      | State s \<Rightarrow>
          (let (r, cache') = Solve_Stoch S cache s;
               cur' = item00 r
           in case subscript0 cur' of
                Inl e \<Rightarrow> Inl e
              | Inr c0 \<Rightarrow>
                  (case subscript0 c0 of
                     Inl e \<Rightarrow> Inl e
                   | Inr c00 \<Rightarrow>
                       (case FindStrat_Stoch_loop S n cache' cur' of
                          Inl e \<Rightarrow> Inl e
                        | Inr (strategy, cache'') \<Rightarrow> Inr (c00 # strategy, cache'')))))"

definition FindStrat_Stoch ::
  "HealthCareDP_Stoch \<Rightarrow> (DPState \<rightharpoonup> sresult) \<Rightarrow> DPState
     \<Rightarrow> error + (cur list \<times> (DPState \<rightharpoonup> sresult))" where
  "FindStrat_Stoch S cache state =
     FindStrat_Stoch_loop S (nat (numRounds (dp S))) cache (State state)"

lemma subscript0_twice: "(case subscript0 c of Inl e \<Rightarrow> Inl e | Inr c0 \<Rightarrow>
     (case subscript0 c0 of Inl e \<Rightarrow> Inl e | Inr c00 \<Rightarrow> f c00)) = Inl TypeError"
  by (cases c) simp_all

lemma FindStrat_Stoch_loop_raises: "FindStrat_Stoch_loop S (Suc n) cache cur = Inl TypeError"
  by (cases cur) (simp_all add: subscript0_twice case_prod_beta Let_def)

lemma FindStrat_Stoch_raises:
  assumes "1 \<le> numRounds (dp S)"
  shows "FindStrat_Stoch S cache state = Inl TypeError"
proof -
  obtain n where "nat (numRounds (dp S)) = Suc n"
    using assms by (cases "nat (numRounds (dp S))") auto
  then show ?thesis
    by (simp add: FindStrat_Stoch_def FindStrat_Stoch_loop_raises del: FindStrat_Stoch_loop.simps)
qed

text \<open>
  C7 fails in HealthcareDP\_Stoch.py: for the 18-round game and the start state
  \<open>DPState(0, 85, 0)\<close>, \<open>FindStrat\<close> raises \<open>TypeError\<close> in its first iteration and
  returns no trajectory. After \<open>cur = self.Solve(cur)[0][0]\<close> the variable is a state (or
  a number), and \<open>cur[0][0]\<close> subscripts its period. By \<open>FindStrat_Stoch_raises\<close> the same
  holds for every solver with at least one round, every cache and every start state.
\<close>

theorem FindStrat_Stoch_first_iteration:
  "FindStrat_Stoch stoch_game Map.empty (DPState 0 85 0) = Inl TypeError"
  by (rule FindStrat_Stoch_raises) (simp add: stoch_game_def game18_numRounds)

subsection \<open>The deterministic extraction in HealthcareDP\_NewDegen.py\<close>

text \<open>
  The chain of winning next states, \<open>n\<close> steps long (it would stop early at a result
  without a state, which the search of HealthcareDP\_NewDegen.py never returns).
\<close>

fun trajectory :: "HealthCareDP \<Rightarrow> nat \<Rightarrow> DPState \<Rightarrow> DPState list" where
  "trajectory P 0 s = []"
| "trajectory P (Suc n) s =
     (case value_spec P s of Triple s' v u \<Rightarrow> s' # trajectory P n s' | _ \<Rightarrow> [])"

lemma scan_shape:
  "scan fut cands hr0 = hr0 \<or> (\<exists>s v u. scan fut cands hr0 = Triple s v u)"
  using scan_char [of fut cands hr0] by auto

lemma value_spec_Triple:
  assumes "regenStrat P = Regen2 g"
  shows "\<exists>s' v u. value_spec P s = Triple s' v u"
  using assms scan_shape [of "future P" "StateEnum P (Transition P s)" "highestReturn0 P"]
  by (auto simp: value_spec_unfold best_def highestReturn0_def)

lemma FindStrat_loop_NewDegen:
  assumes "regenStrat P = Regen2 g" "cache_ok P cache"
  shows "\<exists>cache'. FindStrat_loop P n cache (State s) = Inr (map State (trajectory P n s), cache')
           \<and> cache_ok P cache'"
  using assms(2)
proof (induction n arbitrary: cache s)
  case 0
  then show ?case by simp
next
  case (Suc n)
  obtain s' v u where t: "value_spec P s = Triple s' v u"
    using value_spec_Triple [OF assms(1)] by blast
  have m: "fst (Solve P cache s) = Triple s' v u" "cache_ok P (snd (Solve P cache s))"
    using Solve_memo [OF Suc.prems, of s] t by auto
  obtain c' where c': "FindStrat_loop P n (snd (Solve P cache s)) (State s')
      = Inr (map State (trajectory P n s'), c')" "cache_ok P c'"
    using Suc.IH [OF m(2)] by blast
  show ?case
    using m(1) c' t by (simp add: case_prod_beta Let_def)
qed

lemma length_trajectory:
  assumes "regenStrat P = Regen2 g"
  shows "length (trajectory P n s) = n"
proof (induction n arbitrary: s)
  case 0
  then show ?case by simp
next
  case (Suc n)
  obtain s' v u where "value_spec P s = Triple s' v u"
    using value_spec_Triple [OF assms] by blast
  then show ?case using Suc.IH by simp
qed

lemma FindStrat_NewDegen:
  assumes "regenStrat P = Regen2 g" "cache_ok P cache"
  shows "\<exists>strategy cache'. FindStrat P cache s = Inr (map State strategy, cache') \<and>
           strategy = trajectory P (nat (numRounds P)) s \<and> length strategy = nat (numRounds P)"
  using FindStrat_loop_NewDegen [OF assms, of "nat (numRounds P)" s] length_trajectory [OF assms(1)]
  by (auto simp: FindStrat_def)


text \<open>
  The one-round game of HealthcareDP\_NewDegen.py with the strategies of its \<open>main\<close>,
  from \<open>DPState(0, 15, 0)\<close>: health 5 and cash 7 after the transition, eight candidates,
  and the first (all cash to enjoyment) wins.
\<close>

definition newdegen_game :: HealthCareDP where
  "newdegen_game = NewDegen 1 10 50 50 10 46.811"

lemma newdegen_regen: "regenStrat (NewDegen n d k j degen maxHarvest)
    = Regen2 (\<lambda>investment h. projr (HealthRegained_deficit d k investment h))"
  by (simp add: NewDegen_def)

lemma newdegen_Transition: "Transition newdegen_game (DPState 0 15 0) = DPState 1 5 7"
  by (simp add: newdegen_game_def NewDegen_def Transition_def Let_def HealthDegeneration_special_def
      HarvestAmount_def py_round_def)

lemma newdegen_StateEnum:
  "StateEnum newdegen_game (DPState 1 5 7) =
     [(DPState 1 5 0, 35 / 57), (DPState 1 5 0, 30 / 56), (DPState 1 5 0, 25 / 55),
      (DPState 1 5 0, 20 / 54), (DPState 1 5 0, 15 / 53), (DPState 1 5 0, 10 / 52),
      (DPState 1 5 0, 5 / 51), (DPState 1 5 0, 0)]"
  by (simp add: newdegen_game_def NewDegen_def StateEnum_def InvestmentEnum_def InvestmentEnum_banked_def
      py_range_def py_range10_def upto.simps Invest_def Let_def HealthRegained_deficit_def
      LifeEnjoyment_hyper_def py_int_def)

lemma newdegen_future: "future newdegen_game (DPState 1 h b) = 0"
  by (simp add: future_def value_spec_unfold terminal_def newdegen_game_def NewDegen_def
      Transition_def Let_def)

lemma newdegen_value:
  "value_spec newdegen_game (DPState 0 15 0) = Triple (DPState 1 5 0) (35 / 57) (6 / 10)"
  by (simp add: value_spec_unfold newdegen_Transition terminal_def best_def scan_def
      newdegen_StateEnum keep_best_def newdegen_future py_round1_def py_round_def Let_def)
     (simp add: newdegen_game_def NewDegen_def highestReturn0_def)

lemma newdegen_FindStrat:
  "\<exists>cache'. FindStrat newdegen_game Map.empty (DPState 0 15 0) = Inr ([State (DPState 1 5 0)], cache')"
proof -
  have r: "regenStrat newdegen_game
             = Regen2 (\<lambda>investment h. projr (HealthRegained_deficit 10 50 investment h))"
    by (simp add: newdegen_game_def newdegen_regen)
  have n: "nat (numRounds newdegen_game) = Suc 0"
    by (simp add: newdegen_game_def NewDegen_def)
  show ?thesis
    using FindStrat_NewDegen [OF r cache_ok_empty, of "DPState 0 15 0"]
    by (auto simp: n newdegen_value)
qed

section \<open>The deviation analyzer\<close>































section \<open>Monotonicity in the starting resource\<close>
































end
